theory Spec2Isabelle
  imports Complex_Main "HOL-Library.Multiset"
begin

section \<open>Python values and strings\<close>

text \<open>
  The chunking engine works on Python strings and on metadata dictionaries
  (\<^verbatim>\<open>Dict[str, Any]\<close>). A string is a list of characters; a character stands for the
  code point of the same number (code points below 256), so \<open>py_lower\<close>, \<open>py_strip\<close>
  and the substring test follow Python's \<^verbatim>\<open>str.lower\<close>, \<^verbatim>\<open>str.strip\<close> and
  \<^verbatim>\<open>in\<close> on such strings.
\<close>

definition upper_chars :: "char list" where
  "upper_chars = ''ABCDEFGHIJKLMNOPQRSTUVWXYZ'' @
     [CHR 0xC0, CHR 0xC1, CHR 0xC2, CHR 0xC3, CHR 0xC4, CHR 0xC5, CHR 0xC6, CHR 0xC7,
      CHR 0xC8, CHR 0xC9, CHR 0xCA, CHR 0xCB, CHR 0xCC, CHR 0xCD, CHR 0xCE, CHR 0xCF,
      CHR 0xD0, CHR 0xD1, CHR 0xD2, CHR 0xD3, CHR 0xD4, CHR 0xD5, CHR 0xD6,
      CHR 0xD8, CHR 0xD9, CHR 0xDA, CHR 0xDB, CHR 0xDC, CHR 0xDD, CHR 0xDE]"

definition lower_chars :: "char list" where
  "lower_chars = ''abcdefghijklmnopqrstuvwxyz'' @
     [CHR 0xE0, CHR 0xE1, CHR 0xE2, CHR 0xE3, CHR 0xE4, CHR 0xE5, CHR 0xE6, CHR 0xE7,
      CHR 0xE8, CHR 0xE9, CHR 0xEA, CHR 0xEB, CHR 0xEC, CHR 0xED, CHR 0xEE, CHR 0xEF,
      CHR 0xF0, CHR 0xF1, CHR 0xF2, CHR 0xF3, CHR 0xF4, CHR 0xF5, CHR 0xF6,
      CHR 0xF8, CHR 0xF9, CHR 0xFA, CHR 0xFB, CHR 0xFC, CHR 0xFD, CHR 0xFE]"

definition py_lower_char :: "char \<Rightarrow> char" where
  "py_lower_char c = (case map_of (zip upper_chars lower_chars) c of Some d \<Rightarrow> d | None \<Rightarrow> c)"

definition py_lower :: "string \<Rightarrow> string" where
  "py_lower s = map py_lower_char s"

text \<open>The characters \<^verbatim>\<open>str.isspace\<close> accepts: tab to carriage return, the four
  separators 0x1C to 0x1F, the space, NEL and the no-break space.\<close>

definition py_isspace :: "char \<Rightarrow> bool" where
  "py_isspace c = (c \<in> set [CHR 0x09, CHR 0x0A, CHR 0x0B, CHR 0x0C, CHR 0x0D,
      CHR 0x1C, CHR 0x1D, CHR 0x1E, CHR 0x1F, CHR 0x20, CHR 0x85, CHR 0xA0])"

definition py_strip :: "string \<Rightarrow> string" where
  "py_strip s = rev (dropWhile py_isspace (rev (dropWhile py_isspace s)))"

fun startswith :: "string \<Rightarrow> string \<Rightarrow> bool" where
  "startswith s [] = True"
| "startswith [] (p # ps) = False"
| "startswith (c # cs) (p # ps) = (c = p \<and> startswith cs ps)"

text \<open>\<open>contains s sub\<close> is Python's \<^verbatim>\<open>sub in s\<close>.\<close>

fun contains :: "string \<Rightarrow> string \<Rightarrow> bool" where
  "contains [] sub = (sub = [])"
| "contains (c # cs) sub = (startswith (c # cs) sub \<or> contains cs sub)"

text \<open>\<open>py_join sep xs\<close> is \<^verbatim>\<open>sep.join(xs)\<close>.\<close>

fun py_join :: "string \<Rightarrow> string list \<Rightarrow> string" where
  "py_join sep [] = []"
| "py_join sep [x] = x"
| "py_join sep (x # y # ys) = x @ sep @ py_join sep (y # ys)"

text \<open>\<open>py_split_char d s\<close> is \<^verbatim>\<open>s.split(d)\<close> for a one-character separator:
  the pieces between the separators, empty pieces kept.\<close>

fun py_split_char :: "char \<Rightarrow> string \<Rightarrow> string list" where
  "py_split_char d [] = [[]]"
| "py_split_char d (c # cs) =
     (case py_split_char d cs of
        [] \<Rightarrow> [[]]
      | p # ps \<Rightarrow> if c = d then [] # p # ps else (c # p) # ps)"

text \<open>\<open>py_take n xs\<close> is the slice \<^verbatim>\<open>xs[:n]\<close>: a negative bound counts from the end.\<close>

definition py_take :: "int \<Rightarrow> 'a list \<Rightarrow> 'a list" where
  "py_take n xs = (if 0 \<le> n then take (nat n) xs else take (length xs - nat (- n)) xs)"

subsection \<open>Values of a metadata dictionary\<close>

datatype pyval =
    PStr string
  | PInt int
  | PBool bool
  | PStrs "string list"
  | PNone

type_synonym meta = "string \<rightharpoonup> pyval"

text \<open>Truthiness, as \<^verbatim>\<open>if metadata.get(key):\<close> tests it.\<close>

fun truthy :: "pyval \<Rightarrow> bool" where
  "truthy (PStr s) = (s \<noteq> [])"
| "truthy (PInt i) = (i \<noteq> 0)"
| "truthy (PBool b) = b"
| "truthy (PStrs xs) = (xs \<noteq> [])"
| "truthy PNone = False"

fun string_of_nat :: "nat \<Rightarrow> string" where
  "string_of_nat n =
     (if n < 10 then [''0123456789'' ! n]
      else string_of_nat (n div 10) @ [''0123456789'' ! (n mod 10)])"

declare string_of_nat.simps [simp del]

definition string_of_int :: "int \<Rightarrow> string" where
  "string_of_int i = (if i < 0 then CHR ''-'' # string_of_nat (nat (- i)) else string_of_nat (nat i))"

text \<open>
  \<^verbatim>\<open>repr\<close> of a string, as it appears inside the \<^verbatim>\<open>str\<close> of a list: single quotes
  unless the string holds a single quote and no double quote; the backslash, the chosen
  quote, tab, newline and carriage return are escaped, every other unprintable character
  is written \<^verbatim>\<open>\xNN\<close>.
\<close>

definition hex2 :: "char \<Rightarrow> string" where
  "hex2 c = (let n = (of_char c :: nat) in
     [''0123456789abcdef'' ! (n div 16), ''0123456789abcdef'' ! (n mod 16)])"

definition py_printable :: "char \<Rightarrow> bool" where
  "py_printable c = (let n = (of_char c :: nat) in
     (32 \<le> n \<and> n < 127) \<or> (161 \<le> n \<and> n \<noteq> 173))"

definition repr_char :: "char \<Rightarrow> char \<Rightarrow> string" where
  "repr_char q c =
     (if c = CHR 0x5C then [CHR 0x5C, CHR 0x5C]
      else if c = q then [CHR 0x5C, q]
      else if c = CHR 0x09 then [CHR 0x5C, CHR ''t'']
      else if c = CHR 0x0A then [CHR 0x5C, CHR ''n'']
      else if c = CHR 0x0D then [CHR 0x5C, CHR ''r'']
      else if py_printable c then [c]
      else [CHR 0x5C, CHR ''x''] @ hex2 c)"

definition py_repr_str :: "string \<Rightarrow> string" where
  "py_repr_str s =
     (let q = (if CHR 0x27 \<in> set s \<and> CHR 0x22 \<notin> set s then CHR 0x22 else CHR 0x27)
      in [q] @ concat (map (repr_char q) s) @ [q])"

text \<open>\<open>py_str v\<close> is \<^verbatim>\<open>str(v)\<close>, the text an f-string puts in place of \<^verbatim>\<open>{v}\<close>.\<close>

fun py_str :: "pyval \<Rightarrow> string" where
  "py_str (PStr s) = s"
| "py_str (PInt i) = string_of_int i"
| "py_str (PBool b) = (if b then ''True'' else ''False'')"
| "py_str (PStrs xs) = ''['' @ py_join '', '' (map py_repr_str xs) @ '']''"
| "py_str PNone = ''None''"

text \<open>
  A field that is present and truthy, formatted: \<open>fmt_field md k = Some s\<close> when
  \<^verbatim>\<open>metadata.get(k)\<close> is truthy and \<^verbatim>\<open>f"{metadata[k]}"\<close> is \<open>s\<close>.
\<close>

definition fmt_field :: "meta \<Rightarrow> string \<Rightarrow> string option" where
  "fmt_field md k = (case md k of Some v \<Rightarrow> if truthy v then Some (py_str v) else None | None \<Rightarrow> None)"

text \<open>The exceptions that reach the caller of the chunking functions.\<close>

datatype error =
    AttributeError
  | TokenizerError
  | SplitterError

text \<open>
  \<^verbatim>\<open>metadata.get('source', '')\<close> where a string is needed: the callers pass the value
  to \<^verbatim>\<open>detect_document_type\<close> or call \<^verbatim>\<open>.lower()\<close> on it, and a value that is not
  a string has no \<^verbatim>\<open>lower\<close> and raises AttributeError.
\<close>

definition source_str :: "meta \<Rightarrow> error + string" where
  "source_str md =
     (case md ''source'' of
        None \<Rightarrow> Inr []
      | Some (PStr s) \<Rightarrow> Inr s
      | Some _ \<Rightarrow> Inl AttributeError)"

text \<open>The upstream contract: \<^verbatim>\<open>source\<close>, when present, is a file name.\<close>

definition source_is_str :: "meta \<Rightarrow> bool" where
  "source_is_str md = (case source_str md of Inr s \<Rightarrow> True | Inl e \<Rightarrow> False)"

section \<open>Document type classifier (chunker.py)\<close>

text \<open>
  \<^verbatim>\<open>detect_document_type(filename: str, metadata)\<close> is three chains of tests; the
  first test that holds returns. Each chain is a function here, \<open>None\<close> when no test of
  the chain holds and control reaches the next one. \<^verbatim>\<open>metadata.get(k) == 'v'\<close> holds
  only for the string \<open>v\<close>.
\<close>

definition filename_rules :: "string \<Rightarrow> meta \<Rightarrow> string option" where
  "filename_rules filename_lower md =
     (if contains filename_lower ''800-53'' \<and> md ''file_type'' = Some (PStr ''xml'') then Some ''800-53_xml''
      else if contains filename_lower ''800-53'' \<and> contains filename_lower ''catalog'' then Some ''800-53_catalog''
      else if contains filename_lower ''800-53a'' \<or> contains filename_lower ''assessment'' then Some ''800-53a_assessment''
      else if contains filename_lower ''800-37'' \<or> contains filename_lower ''rmf'' then Some ''800-37_rmf''
      else if contains filename_lower ''csf'' \<or> contains filename_lower ''cybersecurity framework'' then Some ''csf_2.0''
      else if contains filename_lower ''800-171'' then Some ''800-171''
      else if contains filename_lower ''fedramp'' then Some ''fedramp''
      else if contains filename_lower ''cmmc'' then Some ''cmmc''
      else if contains filename_lower ''srg'' \<or> contains filename_lower ''dod'' then Some ''dod_srg''
      else None)"

definition metadata_rules :: "meta \<Rightarrow> string option" where
  "metadata_rules md =
     (if md ''document_type'' = Some (PStr ''800-53_xml'') then Some ''800-53_xml''
      else if md ''document_type'' = Some (PStr ''security_pattern'') then Some ''security_pattern''
      else if md ''document_type'' = Some (PStr ''positioning_guide'') then Some ''positioning_guide''
      else if md ''document_type'' = Some (PStr ''zone_guide'') then Some ''zone_guide''
      else if md ''document_type'' = Some (PStr ''grouping_guide'') then Some ''grouping_guide''
      else if md ''document_type'' = Some (PStr ''segmentation_guide'') then Some ''segmentation_guide''
      else None)"

definition keyword_rules :: "string \<Rightarrow> string option" where
  "keyword_rules filename_lower =
     (if contains filename_lower ''security_pattern'' then Some ''security_pattern''
      else if contains filename_lower ''positioning'' then Some ''positioning_guide''
      else if contains filename_lower ''zone'' then Some ''zone_guide''
      else if contains filename_lower ''grouping'' then Some ''grouping_guide''
      else if contains filename_lower ''segmentation'' then Some ''segmentation_guide''
      else if contains filename_lower ''query_pattern'' \<or> contains filename_lower ''greeting'' then Some ''query_patterns''
      else None)"

definition detect_document_type :: "string \<Rightarrow> meta \<Rightarrow> string" where
  "detect_document_type filename md =
     (let filename_lower = py_lower filename in
      case filename_rules filename_lower md of
        Some t \<Rightarrow> t
      | None \<Rightarrow>
          (case metadata_rules md of
             Some t \<Rightarrow> t
           | None \<Rightarrow>
               (case keyword_rules filename_lower of
                  Some t \<Rightarrow> t
                | None \<Rightarrow> ''default'')))"

text \<open>The six values of \<^verbatim>\<open>metadata['document_type']\<close> the second chain tests for.\<close>

definition honoured_types :: "string list" where
  "honoured_types = [''800-53_xml'', ''security_pattern'', ''positioning_guide'',
     ''zone_guide'', ''grouping_guide'', ''segmentation_guide'']"

section \<open>External libraries\<close>

text \<open>
  Three libraries do work that is not in the repository: \<^verbatim>\<open>tiktoken\<close> turns a text
  into token ids, LangChain's \<^verbatim>\<open>RecursiveCharacterTextSplitter(chunk_size,
  chunk_overlap, length_function)\<close> splits a text into spans, and \<^verbatim>\<open>re.findall\<close>
  finds the matches of the two fixed patterns of \<^verbatim>\<open>_extract_key_terms\<close>. They are
  parameters of the model. The tokenizer and the splitter can raise (the vocabulary
  fails to load, a text is not what the library accepts), so they return a sum.
  The splitter caches of \<^verbatim>\<open>chunker.py\<close> hold one splitter per (size, overlap) pair
  and change nothing that is computed.
\<close>

record libs =
  tiktoken_encode :: "string \<Rightarrow> error + nat list"
  split_text :: "int \<Rightarrow> int \<Rightarrow> string \<Rightarrow> error + string list"
  findall_capitalized :: "string \<Rightarrow> string list"
  findall_acronyms :: "string \<Rightarrow> string list"

section \<open>Token utilities (token\_utils.py)\<close>

text \<open>\<^verbatim>\<open>count_tokens(text)\<close>: \<^verbatim>\<open>len(tokenizer.encode(text, disallowed_special=()))\<close>.\<close>

definition count_tokens :: "libs \<Rightarrow> string \<Rightarrow> error + int" where
  "count_tokens L txt =
     (case tiktoken_encode L txt of
        Inl e \<Rightarrow> Inl e
      | Inr tokens \<Rightarrow> Inr (int (length tokens)))"

text \<open>\<^verbatim>\<open>int(x)\<close> of a number: truncation towards zero.\<close>

definition py_int :: "rat \<Rightarrow> int" where
  "py_int x = (if 0 \<le> x then \<lfloor>x\<rfloor> else \<lceil>x\<rceil>)"

text \<open>
  \<^verbatim>\<open>calculate_adaptive_overlap(chunk_size_tokens, overlap_ratio=0.2)\<close>. The product
  \<^verbatim>\<open>chunk_size_tokens * overlap_ratio\<close> is a float in the source and an exact
  rational here; for the ratio 0.2 and a size below \<open>2^53\<close> both truncate to the same
  integer.
\<close>

definition calculate_adaptive_overlap :: "int \<Rightarrow> rat \<Rightarrow> int" where
  "calculate_adaptive_overlap chunk_size_tokens overlap_ratio =
     (let overlap = max 20 (py_int (of_int chunk_size_tokens * overlap_ratio));
          max_overlap = chunk_size_tokens div 2
      in min overlap max_overlap)"

definition default_overlap_ratio :: rat where
  "default_overlap_ratio = 2 / 10"

section \<open>Metadata enhancer (metadata\_enhancer.py)\<close>

record chunk =
  c_text :: string
  c_metadata :: meta

text \<open>
  \<^verbatim>\<open>_extract_key_terms(text, pattern_type)\<close>: the vocabulary terms found in the text in
  lower case (only with \<^verbatim>\<open>pattern_type\<close>), then up to three capitalised phrases and up
  to three acronyms; five terms at most.
\<close>

definition pattern_terms :: "string list" where
  "pattern_terms = [''zero trust'', ''dmz'', ''defense in depth'', ''segmentation'',
     ''micro-segmentation'', ''network isolation'', ''perimeter security'',
     ''firewall'', ''intrusion detection'', ''intrusion prevention'',
     ''load balancer'', ''proxy'', ''gateway'']"

definition extract_key_terms :: "libs \<Rightarrow> string \<Rightarrow> bool \<Rightarrow> string list" where
  "extract_key_terms L txt pattern_type =
     (let terms = (if pattern_type then filter (\<lambda>term. contains (py_lower txt) term) pattern_terms else []);
          terms = terms @ take 3 (findall_capitalized L txt);
          terms = terms @ take 3 (findall_acronyms L txt)
      in take 5 terms)"

text \<open>
  \<^verbatim>\<open>_generate_control_questions(text, metadata)\<close>. A field read with
  \<^verbatim>\<open>metadata.get(k, '')\<close> is used only when truthy, which \<open>fmt_field\<close> tests.
  \<^verbatim>\<open>metadata.get('source', '').lower()\<close> is evaluated only under a truthy control id.
\<close>

definition generate_control_questions :: "string \<Rightarrow> meta \<Rightarrow> error + string list" where
  "generate_control_questions txt md =
     (let control_id = fmt_field md ''control_id'';
          control_name = fmt_field md ''control_name'';
          family = fmt_field md ''family'';
          enhancement_number = fmt_field md ''enhancement_number'';
          questions = []
      in case (case control_id of
                 None \<Rightarrow> Inr questions
               | Some cid \<Rightarrow>
                   (let questions = questions @
                          [''What is the purpose of control '' @ cid @ ''?'',
                           ''What are the requirements for '' @ cid @ ''?''];
                        questions = (case control_name of
                            Some name \<Rightarrow> questions @
                              [''How do I implement '' @ name @ ''?'',
                               ''What does '' @ name @ '' require?'']
                          | None \<Rightarrow> questions);
                        questions = (case enhancement_number of
                            Some en \<Rightarrow> questions @
                              [''What does enhancement '' @ en @ '' of '' @ cid @ '' add?'']
                          | None \<Rightarrow> questions)
                    in case source_str md of
                         Inl e \<Rightarrow> Inl e
                       | Inr source \<Rightarrow>
                           Inr (if contains (py_lower source) ''assessment''
                                then questions @
                                  [''How do you assess '' @ cid @ ''?'',
                                   ''What are the assessment procedures for '' @ cid @ ''?'']
                                else questions)))
         of Inl e \<Rightarrow> Inl e
          | Inr questions \<Rightarrow>
              (let questions = (case family of
                       Some fam \<Rightarrow> questions @ [''What are the '' @ fam @ '' family requirements?'']
                     | None \<Rightarrow> questions);
                   questions = (if contains (py_lower txt) ''baseline''
                     then questions @ [''What baseline applies to '' @
                            (case control_id of Some cid \<Rightarrow> cid | None \<Rightarrow> ''this control'') @ ''?'']
                     else questions);
                   questions = (if list_ex (\<lambda>word. contains (py_lower txt) word) [''shall'', ''must'', ''required'']
                     then questions @ [''What are the mandatory requirements for '' @
                            (case control_id of Some cid \<Rightarrow> cid | None \<Rightarrow> ''this'') @ ''?'']
                     else questions)
               in Inr questions))"

text \<open>\<^verbatim>\<open>_generate_pattern_questions(text, metadata, document_type)\<close>.\<close>

definition generate_pattern_questions :: "libs \<Rightarrow> string \<Rightarrow> meta \<Rightarrow> string \<Rightarrow> string list" where
  "generate_pattern_questions L txt md document_type =
     (let pattern_keywords = extract_key_terms L txt True in
      if document_type = ''security_pattern'' then
        concat (map (\<lambda>keyword. [''How do I implement '' @ keyword @ ''?'',
                                  ''What are the best practices for '' @ keyword @ ''?''])
                    (take 2 pattern_keywords))
        @ [''What security patterns should I use?'']
        @ (if contains (py_lower txt) ''zero trust'' then [''How do I implement zero trust architecture?''] else [])
        @ (if contains (py_lower txt) ''dmz'' then [''How should I configure my DMZ?''] else [])
      else if document_type = ''positioning_guide'' then
        [''Where should I position security devices?'',
         ''What are the best practices for device placement?'']
      else if document_type = ''zone_guide'' then
        [''How should I segment network zones?'',
         ''What are the security zone requirements?'']
      else if document_type = ''grouping_guide'' then
        [''How should I group devices?'',
         ''What are device grouping best practices?'']
      else if document_type = ''segmentation_guide'' then
        [''How do I segment my network?'',
         ''What are network segmentation strategies?'']
      else [])"

text \<open>\<^verbatim>\<open>_generate_framework_questions(text, metadata, document_type)\<close>.\<close>

definition generate_framework_questions :: "string \<Rightarrow> meta \<Rightarrow> string \<Rightarrow> string list" where
  "generate_framework_questions txt md document_type =
     (if document_type = ''800-37_rmf'' then
        (case fmt_field md ''task_id'' of
           Some task_id \<Rightarrow> [''What is task '' @ task_id @ '' in the RMF?'',
                             ''How do I complete task '' @ task_id @ ''?'']
         | None \<Rightarrow> [])
        @ (case fmt_field md ''step'' of
             Some step \<Rightarrow> [''What are the requirements for RMF step '' @ step @ ''?'']
           | None \<Rightarrow> [])
        @ [''What are the RMF steps?'',
           ''How do I implement the Risk Management Framework?'']
      else if document_type = ''csf_2.0'' then
        (case fmt_field md ''function'' of
           Some function \<Rightarrow> [''What is the '' @ function @ '' function in the CSF?'']
         | None \<Rightarrow> [])
        @ (case fmt_field md ''category'' of
             Some category \<Rightarrow> [''What are the '' @ category @ '' requirements?'']
           | None \<Rightarrow> [])
        @ [''What are the Cybersecurity Framework requirements?'']
      else [])"

text \<open>\<^verbatim>\<open>_generate_query_pattern_questions(text, metadata)\<close>.\<close>

definition generate_query_pattern_questions :: "string \<Rightarrow> meta \<Rightarrow> string list" where
  "generate_query_pattern_questions txt md =
     (if CHR ''?'' \<in> set txt then
        take 3 (map (\<lambda>q. py_strip q @ ''?'')
                    (filter (\<lambda>q. py_strip q \<noteq> []) (py_split_char (CHR ''?'') txt)))
      else [''What are common questions about compliance?'',
            ''What should I ask about security requirements?''])"

text \<open>\<^verbatim>\<open>_generate_generic_questions(text, metadata)\<close>.\<close>

definition generate_generic_questions :: "libs \<Rightarrow> string \<Rightarrow> meta \<Rightarrow> string list" where
  "generate_generic_questions L txt md =
     (case extract_key_terms L txt False of
        [] \<Rightarrow> []
      | primary_term # rest \<Rightarrow>
          [''What is '' @ primary_term @ ''?'',
           ''How does '' @ primary_term @ '' work?'',
           ''What are the requirements for '' @ primary_term @ ''?''])
     @ (if list_ex (\<lambda>word. contains (py_lower txt) word) [''requirement'', ''must'', ''shall'']
        then [''What are the requirements?''] else [])
     @ (if list_ex (\<lambda>word. contains (py_lower txt) word) [''implement'', ''deploy'', ''configure'']
        then [''How do I implement this?''] else [])
     @ (if contains (py_lower txt) ''assess'' \<or> contains (py_lower txt) ''evaluate''
        then [''How do I assess this?''] else [])
     @ (case fmt_field md ''section_heading'' of
          Some section \<Rightarrow> [''What is covered in '' @ section @ ''?'']
        | None \<Rightarrow> [])"

text \<open>\<^verbatim>\<open>list(dict.fromkeys(questions))\<close>: each value once, at its first position.\<close>

fun dedup_seen :: "'a list \<Rightarrow> 'a list \<Rightarrow> 'a list" where
  "dedup_seen seen [] = []"
| "dedup_seen seen (x # xs) =
     (if x \<in> set seen then dedup_seen seen xs else x # dedup_seen (x # seen) xs)"

definition dict_fromkeys :: "'a list \<Rightarrow> 'a list" where
  "dict_fromkeys xs = dedup_seen [] xs"

definition control_types :: "string list" where
  "control_types = [''800-53_catalog'', ''800-53a_assessment'', ''800-171'',
     ''fedramp'', ''cmmc'', ''dod_srg'', ''cnssi_1253'', ''overlays'']"

definition pattern_types :: "string list" where
  "pattern_types = [''security_pattern'', ''positioning_guide'', ''zone_guide'',
     ''grouping_guide'', ''segmentation_guide'']"

definition framework_types :: "string list" where
  "framework_types = [''800-37_rmf'', ''csf_2.0'']"

text \<open>\<^verbatim>\<open>generate_hypothetical_questions(text, metadata, document_type, max_questions=3)\<close>.\<close>

definition generate_hypothetical_questions ::
  "libs \<Rightarrow> string \<Rightarrow> meta \<Rightarrow> string \<Rightarrow> int \<Rightarrow> error + string list" where
  "generate_hypothetical_questions L txt md document_type max_questions =
     (case (if document_type \<in> set control_types then generate_control_questions txt md
            else if document_type \<in> set pattern_types then Inr (generate_pattern_questions L txt md document_type)
            else if document_type \<in> set framework_types then Inr (generate_framework_questions txt md document_type)
            else if document_type = ''query_patterns'' then Inr (generate_query_pattern_questions txt md)
            else Inr (generate_generic_questions L txt md))
      of Inl e \<Rightarrow> Inl e
       | Inr questions \<Rightarrow> Inr (py_take max_questions (dict_fromkeys questions)))"

text \<open>
  \<^verbatim>\<open>enhance_chunk_metadata(chunk, document_type, enable_questions=True)\<close>. A chunk
  always has its \<^verbatim>\<open>text\<close> and \<^verbatim>\<open>metadata\<close>, so the defaults of \<^verbatim>\<open>chunk.get\<close> are
  never taken.
\<close>

definition enhance_chunk_metadata :: "libs \<Rightarrow> chunk \<Rightarrow> string \<Rightarrow> bool \<Rightarrow> error + chunk" where
  "enhance_chunk_metadata L c document_type enable_questions =
     (if \<not> enable_questions then Inr c
      else case generate_hypothetical_questions L (c_text c) (c_metadata c) document_type 3 of
             Inl e \<Rightarrow> Inl e
           | Inr questions \<Rightarrow>
               if questions \<noteq> [] then
                 Inr \<lparr>c_text = c_text c,
                      c_metadata = (c_metadata c)
                        (''hypothetical_questions'' \<mapsto> PStrs questions,
                         ''question_count'' \<mapsto> PInt (int (length questions)),
                         ''questions_text'' \<mapsto> PStr (py_join '' '' questions))\<rparr>
               else Inr c)"

text \<open>\<^verbatim>\<open>batch_enhance_chunks\<close>: the list comprehension enhances the chunks in order
  and stops at the first exception.\<close>

fun enhance_each :: "libs \<Rightarrow> string \<Rightarrow> bool \<Rightarrow> chunk list \<Rightarrow> error + chunk list" where
  "enhance_each L document_type enable_questions [] = Inr []"
| "enhance_each L document_type enable_questions (c # cs) =
     (case enhance_chunk_metadata L c document_type enable_questions of
        Inl e \<Rightarrow> Inl e
      | Inr c' \<Rightarrow>
          (case enhance_each L document_type enable_questions cs of
             Inl e \<Rightarrow> Inl e
           | Inr cs' \<Rightarrow> Inr (c' # cs')))"

definition batch_enhance_chunks :: "libs \<Rightarrow> chunk list \<Rightarrow> string \<Rightarrow> bool \<Rightarrow> error + chunk list" where
  "batch_enhance_chunks L chunks document_type enable_questions =
     (if \<not> enable_questions then Inr chunks
      else enhance_each L document_type enable_questions chunks)"

section \<open>Chunker (chunker.py)\<close>

text \<open>
  An entry of \<^verbatim>\<open>CHUNKING_CONFIG\<close>. The flags \<^verbatim>\<open>one_per_control\<close>, \<^verbatim>\<open>by_task\<close> and
  \<^verbatim>\<open>by_impact_level\<close> are keys only some entries have; they are read for their truth
  value, so a missing key is \<open>False\<close>. \<^verbatim>\<open>small_chunk_size\<close> is missing from one entry
  and read with a default.
\<close>

record chunking_config =
  chunk_size_tokens :: int
  chunk_overlap_tokens :: int
  one_per_control :: bool
  by_task :: bool
  by_impact_level :: bool
  use_small2big :: bool
  small_chunk_size :: "int option"

definition control_config :: chunking_config where
  "control_config = \<lparr>chunk_size_tokens = 384, chunk_overlap_tokens = 77, one_per_control = True,
     by_task = False, by_impact_level = False, use_small2big = True, small_chunk_size = Some 256\<rparr>"

definition guide_config :: chunking_config where
  "guide_config = \<lparr>chunk_size_tokens = 450, chunk_overlap_tokens = 90, one_per_control = False,
     by_task = False, by_impact_level = False, use_small2big = True, small_chunk_size = Some 300\<rparr>"

definition default_config :: chunking_config where
  "default_config = \<lparr>chunk_size_tokens = 512, chunk_overlap_tokens = 102, one_per_control = False,
     by_task = False, by_impact_level = False, use_small2big = True, small_chunk_size = Some 256\<rparr>"

definition CHUNKING_CONFIG :: "(string \<times> chunking_config) list" where
  "CHUNKING_CONFIG =
    [(''800-53_catalog'', control_config),
     (''800-53a_assessment'', control_config),
     (''800-53_xml'', control_config),
     (''800-37_rmf'', \<lparr>chunk_size_tokens = 400, chunk_overlap_tokens = 80, one_per_control = False,
        by_task = True, by_impact_level = False, use_small2big = True, small_chunk_size = Some 256\<rparr>),
     (''csf_2.0'', \<lparr>chunk_size_tokens = 400, chunk_overlap_tokens = 80, one_per_control = False,
        by_task = False, by_impact_level = False, use_small2big = True, small_chunk_size = Some 256\<rparr>),
     (''800-171'', control_config),
     (''fedramp'', control_config),
     (''dod_srg'', \<lparr>chunk_size_tokens = 450, chunk_overlap_tokens = 90, one_per_control = False,
        by_task = False, by_impact_level = True, use_small2big = True, small_chunk_size = Some 300\<rparr>),
     (''cmmc'', \<lparr>chunk_size_tokens = 384, chunk_overlap_tokens = 77, one_per_control = False,
        by_task = False, by_impact_level = False, use_small2big = True, small_chunk_size = Some 256\<rparr>),
     (''security_pattern'', guide_config),
     (''positioning_guide'', guide_config),
     (''zone_guide'', guide_config),
     (''grouping_guide'', guide_config),
     (''segmentation_guide'', guide_config),
     (''query_patterns'', \<lparr>chunk_size_tokens = 300, chunk_overlap_tokens = 60, one_per_control = False,
        by_task = False, by_impact_level = False, use_small2big = False, small_chunk_size = None\<rparr>),
     (''default'', default_config)]"

text \<open>\<^verbatim>\<open>get_chunking_config\<close>: \<^verbatim>\<open>CHUNKING_CONFIG.get(document_type, CHUNKING_CONFIG['default'])\<close>.\<close>

definition get_chunking_config :: "string \<Rightarrow> chunking_config" where
  "get_chunking_config document_type =
     (case map_of CHUNKING_CONFIG document_type of Some config \<Rightarrow> config | None \<Rightarrow> default_config)"

definition DOCUMENT_LABELS :: "(string \<times> string) list" where
  "DOCUMENT_LABELS =
    [(''800-53_catalog'', ''NIST SP 800-53 Rev. 5 Control Catalog''),
     (''800-53_xml'', ''NIST SP 800-53 Rev. 5 Control Catalog (XML)''),
     (''800-53a_assessment'', ''NIST SP 800-53A Rev. 5 Assessment Procedures''),
     (''800-37_rmf'', ''NIST SP 800-37 Rev. 2 RMF Lifecycle''),
     (''csf_2.0'', ''NIST Cybersecurity Framework 2.0''),
     (''800-171'', ''NIST SP 800-171 Rev. 3 (CUI Requirements)''),
     (''fedramp'', ''FedRAMP Security Baseline''),
     (''dod_srg'', ''DoD Cloud SRG (IL2-IL6)''),
     (''cmmc'', ''CMMC (Cybersecurity Maturity Model Certification)''),
     (''security_pattern'', ''Security Pattern Documentation''),
     (''positioning_guide'', ''Device Positioning Best Practices''),
     (''zone_guide'', ''Security Zone Relationships''),
     (''grouping_guide'', ''Device Grouping Patterns''),
     (''segmentation_guide'', ''Network Segmentation Strategies''),
     (''query_patterns'', ''Query Patterns and Common Greetings''),
     (''default'', ''Source Document'')]"

text \<open>
  \<^verbatim>\<open>_build_context_prefix(metadata, document_type)\<close>: the parts in the order the source
  appends them, joined by \<^verbatim>\<open>" | "\<close>.
\<close>

definition control_part :: "meta \<Rightarrow> string list" where
  "control_part md =
     (case fmt_field md ''control_id'' of
        None \<Rightarrow> []
      | Some cid \<Rightarrow>
          [''Control '' @ cid
           @ (case fmt_field md ''control_name'' of Some n \<Rightarrow> '' - '' @ n | None \<Rightarrow> [])
           @ (case fmt_field md ''family'' of Some f \<Rightarrow> '' (Family '' @ f @ '')'' | None \<Rightarrow> [])
           @ (case fmt_field md ''enhancement_number'' of Some e \<Rightarrow> '' Enhancement '' @ e | None \<Rightarrow> [])])"

definition labelled_part :: "string \<Rightarrow> meta \<Rightarrow> string \<Rightarrow> string list" where
  "labelled_part label md k = (case fmt_field md k of Some v \<Rightarrow> [label @ v] | None \<Rightarrow> [])"

definition build_context_prefix :: "meta \<Rightarrow> string \<Rightarrow> string" where
  "build_context_prefix md document_type =
     (let parts =
        (case map_of DOCUMENT_LABELS document_type of
           Some label \<Rightarrow> if label \<noteq> [] then [label] else []
         | None \<Rightarrow> [])
        @ labelled_part ''Section: '' md ''section_heading''
        @ control_part md
        @ labelled_part ''Task: '' md ''task_id''
        @ labelled_part ''Step: '' md ''step''
        @ labelled_part ''Function: '' md ''function''
        @ labelled_part ''Category: '' md ''category''
        @ labelled_part ''Impact Level: '' md ''impact_level''
        @ labelled_part ''Baseline: '' md ''baseline_level''
        @ labelled_part ''Page '' md ''page''
        @ labelled_part ''Sheet: '' md ''sheet''
      in py_join '' | '' parts)"

text \<open>The inner function \<^verbatim>\<open>prepend_context(content)\<close> of \<^verbatim>\<open>chunk_text\<close>; the
  separator is two newlines.\<close>

definition prepend_context :: "string \<Rightarrow> string \<Rightarrow> string" where
  "prepend_context context_prefix content0 =
     (let content = py_strip content0 in
      if content = [] then content
      else if context_prefix \<noteq> [] then context_prefix @ [CHR 0x0A, CHR 0x0A] @ content
      else content)"

text \<open>
  The loop over the small spans of one parent (\<^verbatim>\<open>for small_idx, small_chunk in
  enumerate(small_chunks)\<close>); \<open>chunk_documents\<close> is the list built so far, and
  \<^verbatim>\<open>len(chunk_documents)\<close> becomes the chunk index.
\<close>

fun small_chunk_loop ::
  "libs \<Rightarrow> string \<Rightarrow> meta \<Rightarrow> int \<Rightarrow> string \<Rightarrow> int \<Rightarrow> int \<Rightarrow> string list \<Rightarrow> chunk list
     \<Rightarrow> error + chunk list" where
  "small_chunk_loop L context_prefix base parent_idx parent_chunk parent_token_count
       small_idx [] chunk_documents = Inr chunk_documents"
| "small_chunk_loop L context_prefix base parent_idx parent_chunk parent_token_count
       small_idx (small_chunk # rest) chunk_documents =
     (case count_tokens L small_chunk of
        Inl e \<Rightarrow> Inl e
      | Inr small_token_count \<Rightarrow>
          small_chunk_loop L context_prefix base parent_idx parent_chunk parent_token_count
            (small_idx + 1) rest
            (chunk_documents @
              [\<lparr>c_text = prepend_context context_prefix small_chunk,
                c_metadata = base
                  (''chunk_index'' \<mapsto> PInt (int (length chunk_documents)),
                   ''parent_chunk_id'' \<mapsto> PStr (''parent_'' @ string_of_int parent_idx),
                   ''parent_chunk_index'' \<mapsto> PInt parent_idx,
                   ''small_chunk_index'' \<mapsto> PInt small_idx,
                   ''is_small_chunk'' \<mapsto> PBool True,
                   ''token_count'' \<mapsto> PInt small_token_count,
                   ''parent_token_count'' \<mapsto> PInt parent_token_count,
                   ''parent_text'' \<mapsto> PStr parent_chunk)\<rparr>]))"

text \<open>The loop over the parent spans when the hierarchy is built
  (\<^verbatim>\<open>for parent_idx, parent_chunk in enumerate(parent_chunks)\<close>).\<close>

fun parent_chunk_loop ::
  "libs \<Rightarrow> string \<Rightarrow> meta \<Rightarrow> int \<Rightarrow> int \<Rightarrow> int \<Rightarrow> string list \<Rightarrow> chunk list
     \<Rightarrow> error + chunk list" where
  "parent_chunk_loop L context_prefix base small_size small_overlap parent_idx [] chunk_documents =
     Inr chunk_documents"
| "parent_chunk_loop L context_prefix base small_size small_overlap parent_idx
       (parent_chunk # rest) chunk_documents =
     (case count_tokens L parent_chunk of
        Inl e \<Rightarrow> Inl e
      | Inr parent_token_count \<Rightarrow>
          (case split_text L small_size small_overlap parent_chunk of
             Inl e \<Rightarrow> Inl e
           | Inr small_chunks \<Rightarrow>
               (case small_chunk_loop L context_prefix base parent_idx parent_chunk
                       parent_token_count 0 small_chunks chunk_documents of
                  Inl e \<Rightarrow> Inl e
                | Inr chunk_documents' \<Rightarrow>
                    parent_chunk_loop L context_prefix base small_size small_overlap
                      (parent_idx + 1) rest chunk_documents')))"

text \<open>The loop that emits the parent spans themselves
  (\<^verbatim>\<open>for idx, chunk in enumerate(parent_chunks)\<close>).\<close>

fun direct_chunk_loop ::
  "libs \<Rightarrow> string \<Rightarrow> meta \<Rightarrow> int \<Rightarrow> string list \<Rightarrow> chunk list \<Rightarrow> error + chunk list" where
  "direct_chunk_loop L context_prefix base idx [] chunk_documents = Inr chunk_documents"
| "direct_chunk_loop L context_prefix base idx (chunk # rest) chunk_documents =
     (case count_tokens L chunk of
        Inl e \<Rightarrow> Inl e
      | Inr token_count \<Rightarrow>
          direct_chunk_loop L context_prefix base (idx + 1) rest
            (chunk_documents @
              [\<lparr>c_text = prepend_context context_prefix chunk,
                c_metadata = base
                  (''chunk_index'' \<mapsto> PInt idx,
                   ''is_small_chunk'' \<mapsto> PBool False,
                   ''token_count'' \<mapsto> PInt token_count)\<rparr>]))"

text \<open>The document type \<^verbatim>\<open>chunk_text\<close> works with: the argument, or the type detected
  from \<^verbatim>\<open>metadata.get('source', '')\<close> when the argument is \<^verbatim>\<open>None\<close>.\<close>

definition resolve_document_type :: "meta \<Rightarrow> string option \<Rightarrow> error + string" where
  "resolve_document_type md document_type =
     (case document_type of
        Some dt \<Rightarrow> Inr dt
      | None \<Rightarrow>
          (case source_str md of
             Inl e \<Rightarrow> Inl e
           | Inr source \<Rightarrow> Inr (detect_document_type source md)))"

text \<open>\<^verbatim>\<open>metadata.copy()\<close> with the document type and, when it is not empty, the prefix.\<close>

definition with_type_and_prefix :: "meta \<Rightarrow> string \<Rightarrow> string \<Rightarrow> meta" where
  "with_type_and_prefix md document_type context_prefix =
     (let m = md(''document_type'' \<mapsto> PStr document_type) in
      if context_prefix \<noteq> [] then m(''context_prefix'' \<mapsto> PStr context_prefix) else m)"

text \<open>\<^verbatim>\<open>chunk_text(text, metadata, document_type=None, enable_small2big=True,
  enable_questions=True)\<close>.\<close>

definition chunk_text ::
  "libs \<Rightarrow> string \<Rightarrow> meta \<Rightarrow> string option \<Rightarrow> bool \<Rightarrow> bool \<Rightarrow> error + chunk list" where
  "chunk_text L txt md document_type_arg enable_small2big enable_questions =
     (case resolve_document_type md document_type_arg of
        Inl e \<Rightarrow> Inl e
      | Inr document_type \<Rightarrow>
     (let config = get_chunking_config document_type;
          chunk_size = chunk_size_tokens config;
          chunk_overlap = chunk_overlap_tokens config;
          small2big = (use_small2big config \<and> enable_small2big);
          small_size = (case small_chunk_size config of Some n \<Rightarrow> n | None \<Rightarrow> 256);
          context_prefix = build_context_prefix md document_type
      in case count_tokens L txt of
           Inl e \<Rightarrow> Inl e
         | Inr text_token_count \<Rightarrow>
             if one_per_control config \<and> text_token_count \<le> chunk_size then
               (let chunk_metadata = md(''chunk_index'' \<mapsto> PInt 0,
                                        ''document_type'' \<mapsto> PStr document_type,
                                        ''token_count'' \<mapsto> PInt text_token_count,
                                        ''is_small_chunk'' \<mapsto> PBool False);
                    chunk_metadata = (if context_prefix \<noteq> []
                      then chunk_metadata(''context_prefix'' \<mapsto> PStr context_prefix)
                      else chunk_metadata);
                    single_chunk = [\<lparr>c_text = prepend_context context_prefix txt,
                                     c_metadata = chunk_metadata\<rparr>]
                in if enable_questions
                   then batch_enhance_chunks L single_chunk document_type True
                   else Inr single_chunk)
             else
               (case split_text L chunk_size chunk_overlap txt of
                  Inl e \<Rightarrow> Inl e
                | Inr parent_chunks \<Rightarrow>
                    (let base = with_type_and_prefix md document_type context_prefix in
                     case (if small2big \<and> length parent_chunks > 1
                           then parent_chunk_loop L context_prefix base small_size
                                  (calculate_adaptive_overlap small_size default_overlap_ratio)
                                  0 parent_chunks []
                           else direct_chunk_loop L context_prefix base 0 parent_chunks [])
                     of Inl e \<Rightarrow> Inl e
                      | Inr chunk_documents \<Rightarrow>
                          if enable_questions
                          then batch_enhance_chunks L chunk_documents document_type True
                          else Inr chunk_documents))))"

text \<open>A document of a batch: \<^verbatim>\<open>{'text': ..., 'metadata': ...}\<close>.\<close>

record document =
  d_text :: string
  d_metadata :: meta

text \<open>What the orchestrator does with one document: classify by the source name, then
  \<^verbatim>\<open>chunk_text\<close> with that type.\<close>

definition chunk_one :: "libs \<Rightarrow> bool \<Rightarrow> bool \<Rightarrow> document \<Rightarrow> string \<Rightarrow> error + chunk list" where
  "chunk_one L enable_small2big enable_questions doc source =
     chunk_text L (d_text doc) (d_metadata doc)
       (Some (detect_document_type source (d_metadata doc))) enable_small2big enable_questions"

text \<open>
  The parallel branch. The submit loop runs in the calling thread: it reads the source
  name and classifies, outside any \<^verbatim>\<open>try\<close>, and hands \<^verbatim>\<open>chunk_text\<close> to the pool.
  A future holds what its \<^verbatim>\<open>chunk_text\<close> returned or raised.
\<close>

fun submit_all :: "libs \<Rightarrow> bool \<Rightarrow> bool \<Rightarrow> document list \<Rightarrow> error + (error + chunk list) list" where
  "submit_all L enable_small2big enable_questions [] = Inr []"
| "submit_all L enable_small2big enable_questions (doc # rest) =
     (case source_str (d_metadata doc) of
        Inl e \<Rightarrow> Inl e
      | Inr source \<Rightarrow>
          (let future = chunk_one L enable_small2big enable_questions doc source in
           case submit_all L enable_small2big enable_questions rest of
             Inl e \<Rightarrow> Inl e
           | Inr futures \<Rightarrow> Inr (future # futures)))"

text \<open>The loop over \<^verbatim>\<open>as_completed(futures)\<close>: a result extends \<^verbatim>\<open>all_chunks\<close>, an
  exception is printed and the loop continues.\<close>

fun collect_completed :: "(error + chunk list) list \<Rightarrow> chunk list \<Rightarrow> chunk list" where
  "collect_completed [] all_chunks = all_chunks"
| "collect_completed (future # rest) all_chunks =
     (case future of
        Inr chunks \<Rightarrow> collect_completed rest (all_chunks @ chunks)
      | Inl e \<Rightarrow> collect_completed rest all_chunks)"

text \<open>The sequential branch: an exception of any document ends the call.\<close>

fun chunk_sequential :: "libs \<Rightarrow> bool \<Rightarrow> bool \<Rightarrow> document list \<Rightarrow> chunk list \<Rightarrow> error + chunk list" where
  "chunk_sequential L enable_small2big enable_questions [] all_chunks = Inr all_chunks"
| "chunk_sequential L enable_small2big enable_questions (doc # rest) all_chunks =
     (case source_str (d_metadata doc) of
        Inl e \<Rightarrow> Inl e
      | Inr source \<Rightarrow>
          (case chunk_one L enable_small2big enable_questions doc source of
             Inl e \<Rightarrow> Inl e
           | Inr chunks \<Rightarrow>
               chunk_sequential L enable_small2big enable_questions rest (all_chunks @ chunks)))"

text \<open>
  \<^verbatim>\<open>chunk_documents(documents, parallel=True, enable_small2big=True,
  enable_questions=True)\<close>. Which future completes first is not decided by the program:
  \<open>completion_order\<close> lists the positions of the futures in the order
  \<^verbatim>\<open>as_completed\<close> yields them, each position once.
\<close>

fun chunk_documents ::
  "libs \<Rightarrow> document list \<Rightarrow> bool \<Rightarrow> bool \<Rightarrow> bool \<Rightarrow> nat list \<Rightarrow> error + chunk list" where
  "chunk_documents L [] parallel enable_small2big enable_questions completion_order = Inr []"
| "chunk_documents L [doc] parallel enable_small2big enable_questions completion_order =
     (case source_str (d_metadata doc) of
        Inl e \<Rightarrow> Inl e
      | Inr source \<Rightarrow> chunk_one L enable_small2big enable_questions doc source)"
| "chunk_documents L (d1 # d2 # ds) parallel enable_small2big enable_questions completion_order =
     (if parallel then
        (case submit_all L enable_small2big enable_questions (d1 # d2 # ds) of
           Inl e \<Rightarrow> Inl e
         | Inr futures \<Rightarrow>
             Inr (collect_completed (map (\<lambda>i. futures ! i) completion_order) []))
      else chunk_sequential L enable_small2big enable_questions (d1 # d2 # ds) [])"

section \<open>A stand-in for the libraries\<close>

text \<open>
  To run the model on concrete inputs the libraries need values. In this stand-in every
  character is 100 tokens, so that a text of a few characters exceeds the budgets; a
  text with a NUL character makes the tokenizer raise; the splitter cuts a text into
  runs of as many characters as fit the budget and, like LangChain's, refuses an overlap
  larger than the size; the two patterns find nothing.
\<close>

fun chop_acc :: "nat \<Rightarrow> nat \<Rightarrow> string \<Rightarrow> string \<Rightarrow> string list" where
  "chop_acc k n cur [] = (if cur = [] then [] else [rev cur])"
| "chop_acc k n cur (c # cs) =
     (if n \<le> 1 then rev (c # cur) # chop_acc k k [] cs
      else chop_acc k (n - 1) (c # cur) cs)"

definition standin_encode :: "string \<Rightarrow> error + nat list" where
  "standin_encode txt =
     (if CHR 0x00 \<in> set txt then Inl TokenizerError
      else Inr (concat (map (\<lambda>c. replicate 100 0) txt)))"

definition standin_split :: "int \<Rightarrow> int \<Rightarrow> string \<Rightarrow> error + string list" where
  "standin_split budget overlap txt =
     (if overlap > budget then Inl SplitterError
      else Inr (chop_acc (nat (budget div 100)) (nat (budget div 100)) [] txt))"

definition standin_libs :: libs where
  "standin_libs = \<lparr>tiktoken_encode = standin_encode, split_text = standin_split,
     findall_capitalized = (\<lambda>txt. []), findall_acronyms = (\<lambda>txt. [])\<rparr>"

section \<open>The fields of an emitted chunk\<close>

text \<open>The three keys the enhancer writes.\<close>

definition question_keys :: "string set" where
  "question_keys = {''hypothetical_questions'', ''question_count'', ''questions_text''}"

text \<open>A chunk is emitted from a raw span when its token count is the span's and its
  text is the span after \<open>prepend_context\<close>.\<close>

definition emitted_from :: "libs \<Rightarrow> string \<Rightarrow> chunk \<Rightarrow> string \<Rightarrow> bool" where
  "emitted_from L context_prefix c raw =
     (case count_tokens L raw of
        Inl e \<Rightarrow> False
      | Inr n \<Rightarrow> c_metadata c ''token_count'' = Some (PInt n)
                 \<and> c_text c = prepend_context context_prefix raw)"

text \<open>The values of one metadata key over a chunk list, in emission order.\<close>

definition column :: "string \<Rightarrow> chunk list \<Rightarrow> pyval option list" where
  "column k chunks = map (\<lambda>c. c_metadata c k) chunks"

text \<open>The values \<open>0, 1, \<dots>, n - 1\<close> as a metadata column.\<close>

definition index_column :: "nat \<Rightarrow> pyval option list" where
  "index_column n = map (\<lambda>i. Some (PInt (int i))) [0..<n]"

text \<open>What enhancement may change: nothing but the three question keys.\<close>

definition same_but_questions :: "chunk \<Rightarrow> chunk \<Rightarrow> bool" where
  "same_but_questions c c' =
     (c_text c' = c_text c \<and> (\<forall>k. k \<notin> question_keys \<longrightarrow> c_metadata c' k = c_metadata c k))"

text \<open>The small chunks under parent \<open>i\<close>, in emission order.\<close>

definition under_parent :: "int \<Rightarrow> chunk list \<Rightarrow> chunk list" where
  "under_parent i chunks = filter (\<lambda>c. c_metadata c ''parent_chunk_index'' = Some (PInt i)) chunks"

section \<open>Concrete inputs\<close>

text \<open>A chunk of a policy document whose metadata already has a \<^verbatim>\<open>question_count\<close>.\<close>

definition policy_chunk :: chunk where
  "policy_chunk = \<lparr>c_text = ''Passwords must be rotated.'',
     c_metadata = [''source'' \<mapsto> PStr ''policy.md'', ''question_count'' \<mapsto> PInt 99]\<rparr>"

text \<open>A chunk of a control catalogue with no control id, no family and none of the
  trigger words in its text.\<close>

definition bare_chunk :: chunk where
  "bare_chunk = \<lparr>c_text = ''Access is reviewed every quarter.'',
     c_metadata = [''source'' \<mapsto> PStr ''catalog.pdf'', ''chunk_index'' \<mapsto> PInt 0]\<rparr>"


text \<open>The metadata of a page of the control catalogue.\<close>

definition catalog_meta :: meta where
  "catalog_meta = [''source'' \<mapsto> PStr ''NIST_800-53_catalog.pdf'']"

section \<open>The classifier and the metadata field\<close>

lemma metadata_rules_None:
  "md ''document_type'' \<notin> (\<lambda>v. Some (PStr v)) ` set honoured_types \<Longrightarrow> metadata_rules md = None"
  by (simp add: metadata_rules_def honoured_types_def)

lemma metadata_rules_Some:
  "v \<in> set honoured_types \<Longrightarrow> md ''document_type'' = Some (PStr v) \<Longrightarrow> metadata_rules md = Some v"
  by (auto simp add: metadata_rules_def honoured_types_def)

text \<open>
  Claim C8. The classifier honours \<^verbatim>\<open>metadata['document_type']\<close> only for the six
  values of \<open>honoured_types\<close>. For any other value of the field (a string outside the six,
  a value that is not a string, or no field at all) the result is what the file-name
  rules give, else what the file-name keyword rules give, else \<^verbatim>\<open>'default'\<close>: the field
  plays no part. For one of the six values the result is that value, unless a file-name
  rule of the first chain matched before.
\<close>

theorem detect_document_type_metadata_field:
  "(md ''document_type'' \<notin> (\<lambda>v. Some (PStr v)) ` set honoured_types \<longrightarrow>
      detect_document_type filename md =
        (case filename_rules (py_lower filename) md of
           Some t \<Rightarrow> t
         | None \<Rightarrow> (case keyword_rules (py_lower filename) of Some t \<Rightarrow> t | None \<Rightarrow> ''default'')))
   \<and> (\<forall>v \<in> set honoured_types. md ''document_type'' = Some (PStr v) \<longrightarrow>
      detect_document_type filename md =
        (case filename_rules (py_lower filename) md of Some t \<Rightarrow> t | None \<Rightarrow> v))"
proof (intro conjI impI ballI)
  assume "md ''document_type'' \<notin> (\<lambda>v. Some (PStr v)) ` set honoured_types"
  then have "metadata_rules md = None" by (rule metadata_rules_None)
  then show "detect_document_type filename md =
        (case filename_rules (py_lower filename) md of
           Some t \<Rightarrow> t
         | None \<Rightarrow> (case keyword_rules (py_lower filename) of Some t \<Rightarrow> t | None \<Rightarrow> ''default''))"
    by (simp add: detect_document_type_def Let_def split: option.split)
next
  fix v assume "v \<in> set honoured_types" "md ''document_type'' = Some (PStr v)"
  then have "metadata_rules md = Some v" by (rule metadata_rules_Some)
  then show "detect_document_type filename md =
        (case filename_rules (py_lower filename) md of Some t \<Rightarrow> t | None \<Rightarrow> v)"
    by (simp add: detect_document_type_def Let_def split: option.split)
qed

text \<open>The examples of the claim: \<^verbatim>\<open>'query_patterns'\<close> and \<^verbatim>\<open>'csf_2.0'\<close> in the field are
  ignored, \<^verbatim>\<open>'zone_guide'\<close> is honoured.\<close>

theorem detect_document_type_metadata_field_witness:
  "detect_document_type ''Notes.txt'' [''document_type'' \<mapsto> PStr ''query_patterns''] = ''default''
   \<and> detect_document_type ''Greetings.md'' [''document_type'' \<mapsto> PStr ''csf_2.0''] = ''query_patterns''
   \<and> detect_document_type ''Notes.txt'' [''document_type'' \<mapsto> PStr ''zone_guide''] = ''zone_guide''"
proof -
  have f1: "filename_rules (py_lower ''Notes.txt'') m = None" for m
    by code_simp
  have f2: "filename_rules (py_lower ''Greetings.md'') m = None" for m
    by code_simp
  have k1: "keyword_rules (py_lower ''Notes.txt'') = None"
    by code_simp
  have k2: "keyword_rules (py_lower ''Greetings.md'') = Some ''query_patterns''"
    by code_simp
  show ?thesis
    using detect_document_type_metadata_field [of "[''document_type'' \<mapsto> PStr ''query_patterns'']" "''Notes.txt''"]
      detect_document_type_metadata_field [of "[''document_type'' \<mapsto> PStr ''csf_2.0'']" "''Greetings.md''"]
      detect_document_type_metadata_field [of "[''document_type'' \<mapsto> PStr ''zone_guide'']" "''Notes.txt''"]
    by (simp add: honoured_types_def f1 f2 k1 k2)
qed

section \<open>The overlap of the small tier\<close>





section \<open>The enhancer: questions and frame\<close>

lemma dedup_seen_props:
  "distinct (dedup_seen seen xs) \<and> set (dedup_seen seen xs) = set xs - set seen"
  by (induction xs arbitrary: seen) auto

lemma dict_fromkeys_distinct: "distinct (dict_fromkeys xs)"
  by (simp add: dict_fromkeys_def dedup_seen_props)

lemma dict_fromkeys_set: "set (dict_fromkeys xs) = set xs"
  by (simp add: dict_fromkeys_def dedup_seen_props)

lemma dict_fromkeys_Nil_iff: "dict_fromkeys xs = [] \<longleftrightarrow> xs = []"
  using dict_fromkeys_set [of xs] by (metis set_empty)

lemma generate_questions_bounds:
  assumes "generate_hypothetical_questions L txt md dt 3 = Inr qs"
  shows "distinct qs \<and> length qs \<le> 3"
proof -
  from assms obtain raw where "qs = py_take 3 (dict_fromkeys raw)"
    by (auto simp add: generate_hypothetical_questions_def split: sum.splits)
  then show ?thesis
    by (simp add: py_take_def dict_fromkeys_distinct)
qed

lemma generate_control_questions_returns:
  "source_is_str md \<Longrightarrow> \<exists>qs. generate_control_questions txt md = Inr qs"
  by (auto simp add: generate_control_questions_def source_is_str_def Let_def
      split: sum.splits option.splits)

lemma generate_questions_returns:
  "source_is_str md \<Longrightarrow> \<exists>qs. generate_hypothetical_questions L txt md dt n = Inr qs"
  using generate_control_questions_returns [of md "txt"]
  by (auto simp add: generate_hypothetical_questions_def split: sum.splits)

lemma enhance_chunk_metadata_returns:
  "source_is_str (c_metadata c) \<Longrightarrow> \<exists>c'. enhance_chunk_metadata L c dt eq = Inr c'"
  using generate_questions_returns [of "c_metadata c" L "c_text c" dt 3]
  by (auto simp add: enhance_chunk_metadata_def split: sum.splits)

lemma enhance_chunk_metadata_keeps:
  assumes "enhance_chunk_metadata L c dt eq = Inr c'"
  shows "c_text c' = c_text c"
    and "k \<notin> question_keys \<Longrightarrow> c_metadata c' k = c_metadata c k"
    and "dom (c_metadata c') \<subseteq> dom (c_metadata c) \<union> question_keys"
    and "c' = c \<or> question_keys \<subseteq> dom (c_metadata c')"
  using assms
  by (auto simp add: enhance_chunk_metadata_def question_keys_def split: sum.splits if_splits)

text \<open>
  Claim C7, as amended. Enhancement returns a chunk whenever the metadata's
  \<^verbatim>\<open>source\<close> is absent or a string. Whenever it returns, the text is the input's text,
  the metadata agrees with the input's on every key other than
  \<^verbatim>\<open>hypothetical_questions\<close>, \<^verbatim>\<open>question_count\<close> and \<^verbatim>\<open>questions_text\<close>, no key
  outside these three is added, and either the chunk is returned as it was or all three
  keys are set (added, or overwritten when the input already had them).
\<close>

theorem enhance_chunk_metadata_frame:
  "(source_is_str (c_metadata c) \<longrightarrow> (\<exists>c'. enhance_chunk_metadata L c dt eq = Inr c'))
   \<and> (\<forall>c'. enhance_chunk_metadata L c dt eq = Inr c' \<longrightarrow>
         c_text c' = c_text c
         \<and> (\<forall>k. k \<notin> question_keys \<longrightarrow> c_metadata c' k = c_metadata c k)
         \<and> dom (c_metadata c') \<subseteq> dom (c_metadata c) \<union> question_keys
         \<and> (c' = c \<or> question_keys \<subseteq> dom (c_metadata c')))"
  using enhance_chunk_metadata_returns [of c L dt eq] enhance_chunk_metadata_keeps [of L c dt eq]
  by blast

lemma policy_chunk_questions:
  "generate_hypothetical_questions standin_libs (c_text policy_chunk) (c_metadata policy_chunk) ''default'' 3
     = Inr [''What are the requirements?'']"
  by code_simp

lemma policy_chunk_enhanced:
  "enhance_chunk_metadata standin_libs policy_chunk ''default'' True =
     Inr \<lparr>c_text = c_text policy_chunk,
          c_metadata = (c_metadata policy_chunk)
            (''hypothetical_questions'' \<mapsto> PStrs [''What are the requirements?''],
             ''question_count'' \<mapsto> PInt 1,
             ''questions_text'' \<mapsto> PStr ''What are the requirements?'')\<rparr>"
  by (simp add: enhance_chunk_metadata_def policy_chunk_questions)

text \<open>The policy chunk is enhanced with one question; its text and its \<^verbatim>\<open>source\<close>
  stay.\<close>

theorem enhance_chunk_metadata_frame_witness:
  "source_is_str (c_metadata policy_chunk)
   \<and> map_sum id c_text (enhance_chunk_metadata standin_libs policy_chunk ''default'' True)
       = Inr ''Passwords must be rotated.''
   \<and> map_sum id (\<lambda>c'. c_metadata c' ''source'')
        (enhance_chunk_metadata standin_libs policy_chunk ''default'' True) = Inr (Some (PStr ''policy.md''))
   \<and> map_sum id (\<lambda>c'. c_metadata c' ''questions_text'')
        (enhance_chunk_metadata standin_libs policy_chunk ''default'' True)
       = Inr (Some (PStr ''What are the requirements?''))"
proof -
  have s: "source_is_str (c_metadata policy_chunk)"
    by (simp add: source_is_str_def source_str_def policy_chunk_def)
  show ?thesis
    using s enhance_chunk_metadata_frame [of policy_chunk standin_libs "''default''" True]
    by (simp add: policy_chunk_enhanced) (simp add: policy_chunk_def)
qed

text \<open>The claim as worded fails on a key the input already had: the policy chunk comes
  with \<^verbatim>\<open>question_count\<close> 99 and leaves with \<^verbatim>\<open>question_count\<close> 1.\<close>

theorem enhance_chunk_metadata_overwrites_counterexample:
  "c_metadata policy_chunk ''question_count'' = Some (PInt 99)
   \<and> map_sum id (\<lambda>c'. c_metadata c' ''question_count'')
        (enhance_chunk_metadata standin_libs policy_chunk ''default'' True) = Inr (Some (PInt 1))"
  by (simp add: policy_chunk_enhanced) (simp add: policy_chunk_def)

section \<open>Chunks without questions\<close>

text \<open>
  Claim C10. For a control-type chunk whose metadata has no (truthy) control id and no
  (truthy) family and whose text, in lower case, contains none of \<^verbatim>\<open>baseline\<close>,
  \<^verbatim>\<open>shall\<close>, \<^verbatim>\<open>must\<close>, \<^verbatim>\<open>required\<close>, the question generator returns the empty list and
  enhancement with questions enabled returns the chunk unchanged: no question key is
  added, so the question fields are not present in every emitted chunk.
\<close>

theorem control_chunk_without_questions:
  "dt \<in> set control_types \<Longrightarrow>
   fmt_field md ''control_id'' = None \<Longrightarrow>
   fmt_field md ''family'' = None \<Longrightarrow>
   \<not> contains (py_lower body) ''baseline'' \<Longrightarrow>
   \<not> list_ex (\<lambda>word. contains (py_lower body) word) [''shall'', ''must'', ''required''] \<Longrightarrow>
   generate_hypothetical_questions L body md dt 3 = Inr []
   \<and> enhance_chunk_metadata L \<lparr>c_text = body, c_metadata = md\<rparr> dt True
       = Inr \<lparr>c_text = body, c_metadata = md\<rparr>"
proof -
  assume dt: "dt \<in> set control_types"
    and cid: "fmt_field md ''control_id'' = None"
    and fam: "fmt_field md ''family'' = None"
    and b: "\<not> contains (py_lower body) ''baseline''"
    and w: "\<not> list_ex (\<lambda>word. contains (py_lower body) word) [''shall'', ''must'', ''required'']"
  have "generate_control_questions body md = Inr []"
    using cid fam b w by (simp add: generate_control_questions_def Let_def)
  then have g: "generate_hypothetical_questions L body md dt 3 = Inr []"
    using dt by (simp add: generate_hypothetical_questions_def dict_fromkeys_def py_take_def)
  then show ?thesis
    by (simp add: enhance_chunk_metadata_def)
qed

text \<open>Such a chunk: a sentence of a control catalogue with no control id.\<close>

theorem control_chunk_without_questions_witness:
  "''800-53_catalog'' \<in> set control_types
   \<and> c_metadata bare_chunk ''control_id'' = None
   \<and> c_metadata bare_chunk ''family'' = None
   \<and> enhance_chunk_metadata standin_libs bare_chunk ''800-53_catalog'' True = Inr bare_chunk
   \<and> c_metadata bare_chunk ''hypothetical_questions'' = None
   \<and> c_metadata bare_chunk ''question_count'' = None
   \<and> c_metadata bare_chunk ''questions_text'' = None"
proof -
  have t: "''800-53_catalog'' \<in> set control_types"
    by (simp add: control_types_def)
  have m: "fmt_field (c_metadata bare_chunk) ''control_id'' = None"
      "fmt_field (c_metadata bare_chunk) ''family'' = None"
    by (simp_all add: fmt_field_def bare_chunk_def)
  have b: "\<not> contains (py_lower (c_text bare_chunk)) ''baseline''"
    by code_simp
  have w: "\<not> list_ex (\<lambda>word. contains (py_lower (c_text bare_chunk)) word) [''shall'', ''must'', ''required'']"
    by code_simp
  have r: "\<lparr>c_text = c_text bare_chunk, c_metadata = c_metadata bare_chunk\<rparr> = bare_chunk"
    by simp
  show ?thesis
    using control_chunk_without_questions [OF t m b w, of standin_libs] t
    by (simp add: r) (simp add: bare_chunk_def)
qed

section \<open>The questions of a control chunk\<close>



section \<open>What enhancement keeps\<close>

lemma enhance_each_keeps:
  "enhance_each L dt eq cs = Inr cs' \<Longrightarrow> list_all2 same_but_questions cs cs'"
proof (induction cs arbitrary: cs')
  case Nil
  then show ?case by simp
next
  case (Cons c cs)
  from Cons.prems obtain d ds where d: "enhance_chunk_metadata L c dt eq = Inr d"
    and ds: "enhance_each L dt eq cs = Inr ds" and r: "cs' = d # ds"
    by (auto split: sum.splits)
  have "same_but_questions c d"
    using enhance_chunk_metadata_keeps(1,2) [OF d] by (simp add: same_but_questions_def)
  with Cons.IH [OF ds] r show ?case by simp
qed

lemma batch_enhance_keeps:
  "batch_enhance_chunks L cs dt eq = Inr cs' \<Longrightarrow> list_all2 same_but_questions cs cs'"
  by (auto simp add: batch_enhance_chunks_def same_but_questions_def list_all2_same
      intro: enhance_each_keeps split: if_splits)

lemma enhance_each_returns:
  "\<forall>c \<in> set cs. source_is_str (c_metadata c) \<Longrightarrow> \<exists>cs'. enhance_each L dt eq cs = Inr cs'"
proof (induction cs)
  case Nil
  then show ?case by simp
next
  case (Cons c cs)
  then obtain ds where "enhance_each L dt eq cs = Inr ds" by auto
  moreover from Cons.prems obtain d where "enhance_chunk_metadata L c dt eq = Inr d"
    using enhance_chunk_metadata_returns [of c L dt eq] by auto
  ultimately show ?case by simp
qed

lemma column_kept:
  "list_all2 same_but_questions cs cs' \<Longrightarrow> k \<notin> question_keys \<Longrightarrow> column k cs' = column k cs"
  by (induction rule: list_all2_induct) (simp_all add: column_def same_but_questions_def)

lemma under_parent_kept:
  "list_all2 same_but_questions cs cs' \<Longrightarrow>
     list_all2 same_but_questions (under_parent i cs) (under_parent i cs')"
proof (induction rule: list_all2_induct)
  case Nil
  then show ?case by (simp add: under_parent_def)
next
  case (Cons c cs d ds)
  have "''parent_chunk_index'' \<notin> question_keys" by (simp add: question_keys_def)
  with Cons.hyps(1) have "c_metadata d ''parent_chunk_index'' = c_metadata c ''parent_chunk_index''"
    by (simp add: same_but_questions_def)
  with Cons show ?case by (simp add: under_parent_def)
qed


section \<open>The loops of chunk\_text\<close>

lemma index_column_snoc:
  "column k acc = index_column (length acc) \<Longrightarrow> c_metadata c k = Some (PInt (int (length acc))) \<Longrightarrow>
     column k (acc @ [c]) = index_column (length (acc @ [c]))"
  by (simp add: column_def index_column_def)

lemma small_chunk_loop_step:
  assumes "small_chunk_loop L pre base pidx pchunk ptc sidx (s # ss) acc = Inr r"
  obtains c where "small_chunk_loop L pre base pidx pchunk ptc (sidx + 1) ss (acc @ [c]) = Inr r"
    and "c_metadata c ''chunk_index'' = Some (PInt (int (length acc)))"
    and "c_metadata c ''parent_chunk_index'' = Some (PInt pidx)"
    and "c_metadata c ''small_chunk_index'' = Some (PInt sidx)"
    and "c_metadata c ''parent_text'' = Some (PStr pchunk)"
    and "c_metadata c ''is_small_chunk'' = Some (PBool True)"
    and "emitted_from L pre c s"
proof -
  from assms obtain n where n: "count_tokens L s = Inr n"
    by (auto split: sum.splits)
  let ?c = "\<lparr>c_text = prepend_context pre s,
                c_metadata = base
                  (''chunk_index'' \<mapsto> PInt (int (length acc)),
                   ''parent_chunk_id'' \<mapsto> PStr (''parent_'' @ string_of_int pidx),
                   ''parent_chunk_index'' \<mapsto> PInt pidx,
                   ''small_chunk_index'' \<mapsto> PInt sidx,
                   ''is_small_chunk'' \<mapsto> PBool True,
                   ''token_count'' \<mapsto> PInt n,
                   ''parent_token_count'' \<mapsto> PInt ptc,
                   ''parent_text'' \<mapsto> PStr pchunk)\<rparr>"
  have a: "small_chunk_loop L pre base pidx pchunk ptc (sidx + 1) ss (acc @ [?c]) = Inr r"
    using assms n by simp
  have b: "emitted_from L pre ?c s"
    using n by (simp add: emitted_from_def)
  show ?thesis
    by (rule that [where c = ?c, OF a _ _ _ _ _ b]) simp_all
qed

lemma direct_chunk_loop_step:
  assumes "direct_chunk_loop L pre base idx (s # ss) acc = Inr r"
  obtains c where "direct_chunk_loop L pre base (idx + 1) ss (acc @ [c]) = Inr r"
    and "c_metadata c ''chunk_index'' = Some (PInt idx)"
    and "c_metadata c ''is_small_chunk'' = Some (PBool False)"
    and "emitted_from L pre c s"
proof -
  from assms obtain n where n: "count_tokens L s = Inr n"
    by (auto split: sum.splits)
  let ?c = "\<lparr>c_text = prepend_context pre s,
                c_metadata = base
                  (''chunk_index'' \<mapsto> PInt idx,
                   ''is_small_chunk'' \<mapsto> PBool False,
                   ''token_count'' \<mapsto> PInt n)\<rparr>"
  have a: "direct_chunk_loop L pre base (idx + 1) ss (acc @ [?c]) = Inr r"
    using assms n by simp
  have b: "emitted_from L pre ?c s"
    using n by (simp add: emitted_from_def)
  show ?thesis
    by (rule that [where c = ?c, OF a _ _ b]) simp_all
qed

lemma parent_chunk_loop_step:
  assumes "parent_chunk_loop L pre base ssz sov pidx (p # ps) acc = Inr r"
  obtains ptc smalls acc' where "count_tokens L p = Inr ptc"
    and "split_text L ssz sov p = Inr smalls"
    and "small_chunk_loop L pre base pidx p ptc 0 smalls acc = Inr acc'"
    and "parent_chunk_loop L pre base ssz sov (pidx + 1) ps acc' = Inr r"
  using assms by (auto split: sum.splits)

lemma small_chunk_loop_index:
  "small_chunk_loop L pre base pidx pchunk ptc sidx ss acc = Inr r \<Longrightarrow>
   column ''chunk_index'' acc = index_column (length acc) \<Longrightarrow>
   column ''chunk_index'' r = index_column (length r)"
proof (induction ss arbitrary: sidx acc)
  case Nil
  then show ?case by simp
next
  case (Cons s ss)
  from Cons.prems(1) obtain c
    where step: "small_chunk_loop L pre base pidx pchunk ptc (sidx + 1) ss (acc @ [c]) = Inr r"
      and ci: "c_metadata c ''chunk_index'' = Some (PInt (int (length acc)))"
    by (rule small_chunk_loop_step)
  from Cons.IH [OF step index_column_snoc [OF Cons.prems(2) ci]] show ?case .
qed

lemma parent_chunk_loop_index:
  "parent_chunk_loop L pre base ssz sov pidx ps acc = Inr r \<Longrightarrow>
   column ''chunk_index'' acc = index_column (length acc) \<Longrightarrow>
   column ''chunk_index'' r = index_column (length r)"
proof (induction ps arbitrary: pidx acc)
  case Nil
  then show ?case by simp
next
  case (Cons p ps)
  from Cons.prems(1) obtain ptc smalls acc'
    where small: "small_chunk_loop L pre base pidx p ptc 0 smalls acc = Inr acc'"
      and rest: "parent_chunk_loop L pre base ssz sov (pidx + 1) ps acc' = Inr r"
    by (rule parent_chunk_loop_step)
  from Cons.IH [OF rest small_chunk_loop_index [OF small Cons.prems(2)]] show ?case .
qed

lemma direct_chunk_loop_index:
  "direct_chunk_loop L pre base idx ps acc = Inr r \<Longrightarrow>
   idx = int (length acc) \<Longrightarrow>
   column ''chunk_index'' acc = index_column (length acc) \<Longrightarrow>
   column ''chunk_index'' r = index_column (length r)"
proof (induction ps arbitrary: idx acc)
  case Nil
  then show ?case by simp
next
  case (Cons p ps)
  from Cons.prems(1) obtain c
    where step: "direct_chunk_loop L pre base (idx + 1) ps (acc @ [c]) = Inr r"
      and ci: "c_metadata c ''chunk_index'' = Some (PInt idx)"
    by (rule direct_chunk_loop_step)
  have i: "idx + 1 = int (length (acc @ [c]))" using Cons.prems(2) by simp
  have "c_metadata c ''chunk_index'' = Some (PInt (int (length acc)))"
    using ci Cons.prems(2) by simp
  from Cons.IH [OF step i index_column_snoc [OF Cons.prems(3) this]] show ?case .
qed







section \<open>The three paths of chunk\_text\<close>

lemma finish_keeps:
  "(if eq then batch_enhance_chunks L pre dt True else Inr pre) = Inr chunks \<Longrightarrow>
     list_all2 same_but_questions pre chunks"
  by (auto simp add: list_all2_same same_but_questions_def intro: batch_enhance_keeps split: if_splits)

lemma chunk_text_cases:
  assumes "chunk_text L body md dto s2b eq = Inr chunks"
  obtains (single) dt n c where
      "resolve_document_type md dto = Inr dt" "count_tokens L body = Inr n"
      "one_per_control (get_chunking_config dt)" "n \<le> chunk_size_tokens (get_chunking_config dt)"
      "c_metadata c ''chunk_index'' = Some (PInt 0)"
      "c_metadata c ''is_small_chunk'' = Some (PBool False)"
      "emitted_from L (build_context_prefix md dt) c body"
      "list_all2 same_but_questions [c] chunks"
  | (hierarchy) dt n parents pre where
      "resolve_document_type md dto = Inr dt" "count_tokens L body = Inr n"
      "\<not> (one_per_control (get_chunking_config dt) \<and> n \<le> chunk_size_tokens (get_chunking_config dt))"
      "split_text L (chunk_size_tokens (get_chunking_config dt))
         (chunk_overlap_tokens (get_chunking_config dt)) body = Inr parents"
      "use_small2big (get_chunking_config dt)" "s2b" "length parents > 1"
      "parent_chunk_loop L (build_context_prefix md dt)
         (with_type_and_prefix md dt (build_context_prefix md dt))
         (case small_chunk_size (get_chunking_config dt) of Some n \<Rightarrow> n | None \<Rightarrow> 256)
         (calculate_adaptive_overlap
            (case small_chunk_size (get_chunking_config dt) of Some n \<Rightarrow> n | None \<Rightarrow> 256)
            default_overlap_ratio)
         0 parents [] = Inr pre"
      "list_all2 same_but_questions pre chunks"
  | (direct) dt n parents pre where
      "resolve_document_type md dto = Inr dt" "count_tokens L body = Inr n"
      "\<not> (one_per_control (get_chunking_config dt) \<and> n \<le> chunk_size_tokens (get_chunking_config dt))"
      "split_text L (chunk_size_tokens (get_chunking_config dt))
         (chunk_overlap_tokens (get_chunking_config dt)) body = Inr parents"
      "\<not> (use_small2big (get_chunking_config dt) \<and> s2b \<and> length parents > 1)"
      "direct_chunk_loop L (build_context_prefix md dt)
         (with_type_and_prefix md dt (build_context_prefix md dt)) 0 parents [] = Inr pre"
      "list_all2 same_but_questions pre chunks"
proof -
  from assms obtain dt where dt: "resolve_document_type md dto = Inr dt"
    by (auto simp add: chunk_text_def split: sum.splits)
  from assms dt obtain n where n: "count_tokens L body = Inr n"
    by (auto simp add: chunk_text_def Let_def split: sum.splits)
  let ?cfg = "get_chunking_config dt"
  let ?pre = "build_context_prefix md dt"
  show ?thesis
  proof (cases "one_per_control ?cfg \<and> n \<le> chunk_size_tokens ?cfg")
    case True
    let ?m = "md(''chunk_index'' \<mapsto> PInt 0, ''document_type'' \<mapsto> PStr dt,
                 ''token_count'' \<mapsto> PInt n, ''is_small_chunk'' \<mapsto> PBool False)"
    let ?c = "\<lparr>c_text = prepend_context ?pre body,
               c_metadata = (if ?pre \<noteq> [] then ?m(''context_prefix'' \<mapsto> PStr ?pre) else ?m)\<rparr>"
    have fin: "(if eq then batch_enhance_chunks L [?c] dt True else Inr [?c]) = Inr chunks"
      using assms dt n True by (simp add: chunk_text_def Let_def)
    have e: "emitted_from L ?pre ?c body"
      using n by (simp add: emitted_from_def)
    show ?thesis
      by (rule single [where c = ?c, OF dt n _ _ _ _ e finish_keeps [OF fin]])
        (use True in simp_all)
  next
    case False
    from assms dt n False obtain parents
      where sp: "split_text L (chunk_size_tokens ?cfg) (chunk_overlap_tokens ?cfg) body = Inr parents"
      by (auto simp add: chunk_text_def Let_def split: sum.splits)
    let ?base = "with_type_and_prefix md dt ?pre"
    let ?ssz = "case small_chunk_size ?cfg of Some n \<Rightarrow> n | None \<Rightarrow> 256"
    show ?thesis
    proof (cases "use_small2big ?cfg \<and> s2b \<and> length parents > 1")
      case True
      from assms dt n False sp True obtain pre
        where loop: "parent_chunk_loop L ?pre ?base ?ssz
            (calculate_adaptive_overlap ?ssz default_overlap_ratio) 0 parents [] = Inr pre"
          and fin: "(if eq then batch_enhance_chunks L pre dt True else Inr pre) = Inr chunks"
        by (auto simp add: chunk_text_def Let_def split: sum.splits)
      show ?thesis
        by (rule hierarchy [OF dt n False sp _ _ _ loop finish_keeps [OF fin]])
          (use True in simp_all)
    next
      case nothier: False
      from assms dt n False sp nothier obtain pre
        where loop: "direct_chunk_loop L ?pre ?base 0 parents [] = Inr pre"
          and fin: "(if eq then batch_enhance_chunks L pre dt True else Inr pre) = Inr chunks"
        by (auto simp add: chunk_text_def Let_def split: sum.splits if_splits)
      show ?thesis
        by (rule direct [OF dt n False sp nothier loop finish_keeps [OF fin]])
    qed
  qed
qed

section \<open>Chunk indices\<close>

text \<open>
  Claim C2. Whenever \<^verbatim>\<open>chunk_text\<close> returns a chunk list for a document, the
  \<^verbatim>\<open>chunk_index\<close> values of the list, in emission order, are \<open>0, 1, \<dots>, n - 1\<close> for
  the \<open>n\<close> emitted chunks; the proof covers the single chunk of the suppress-split path,
  the small chunks of the hierarchy path and the parents emitted directly. Enhancement
  of any chunk list leaves the \<^verbatim>\<open>chunk_index\<close> column as it was.
\<close>

theorem chunk_index_contiguous:
  "(chunk_text L body md dto s2b eq = Inr chunks \<longrightarrow>
      column ''chunk_index'' chunks = index_column (length chunks))
   \<and> (batch_enhance_chunks L cs dt eq' = Inr cs' \<longrightarrow>
      column ''chunk_index'' cs' = column ''chunk_index'' cs)"
proof (intro conjI impI)
  have k: "''chunk_index'' \<notin> question_keys"
    by (simp add: question_keys_def)
  {
    assume "batch_enhance_chunks L cs dt eq' = Inr cs'"
    then show "column ''chunk_index'' cs' = column ''chunk_index'' cs"
      by (intro column_kept [OF _ k] batch_enhance_keeps)
  }
  assume "chunk_text L body md dto s2b eq = Inr chunks"
  then show "column ''chunk_index'' chunks = index_column (length chunks)"
  proof (cases rule: chunk_text_cases)
    case (single dt n c)
    from single(8) have "column ''chunk_index'' chunks = column ''chunk_index'' [c]"
      by (rule column_kept [OF _ k])
    moreover from single(8) have "length chunks = 1"
      by (auto dest: list_all2_lengthD)
    ultimately show ?thesis
      using single(5) by (simp add: column_def index_column_def)
  next
    case (hierarchy dt n parents pre)
    have "column ''chunk_index'' pre = index_column (length pre)"
      by (rule parent_chunk_loop_index [OF hierarchy(8)]) (simp add: column_def index_column_def)
    moreover have "column ''chunk_index'' chunks = column ''chunk_index'' pre"
      by (rule column_kept [OF hierarchy(9) k])
    moreover have "length chunks = length pre"
      using hierarchy(9) by (auto dest: list_all2_lengthD)
    ultimately show ?thesis by simp
  next
    case (direct dt n parents pre)
    have "column ''chunk_index'' pre = index_column (length pre)"
      by (rule direct_chunk_loop_index [OF direct(6)]) (simp_all add: column_def index_column_def)
    moreover have "column ''chunk_index'' chunks = column ''chunk_index'' pre"
      by (rule column_kept [OF direct(7) k])
    moreover have "length chunks = length pre"
      using direct(7) by (auto dest: list_all2_lengthD)
    ultimately show ?thesis by simp
  qed
qed

text \<open>The three paths on the stand-in libraries: one chunk of a control catalogue, four
  small chunks of a default document, three parents of a query-pattern document.\<close>

theorem chunk_index_contiguous_witness:
  "map_sum id (column ''chunk_index'')
      (chunk_text standin_libs ''abc'' Map.empty (Some ''800-53_catalog'') True True)
     = Inr [Some (PInt 0)]
   \<and> map_sum id (column ''chunk_index'')
      (chunk_text standin_libs ''abcdefg'' Map.empty (Some ''default'') True True)
     = Inr [Some (PInt 0), Some (PInt 1), Some (PInt 2), Some (PInt 3)]
   \<and> map_sum id (column ''chunk_index'')
      (chunk_text standin_libs ''abcdefg'' Map.empty (Some ''query_patterns'') True True)
     = Inr [Some (PInt 0), Some (PInt 1), Some (PInt 2)]"
proof -
  have col: "map_sum id (column ''chunk_index'') (chunk_text standin_libs body Map.empty dto True True)
      = Inr (index_column n)"
    if "map_sum id length (chunk_text standin_libs body Map.empty dto True True) = Inr n"
    for body dto n
  proof -
    from that obtain chunks
      where c: "chunk_text standin_libs body Map.empty dto True True = Inr chunks"
        and n: "length chunks = n"
      by (cases "chunk_text standin_libs body Map.empty dto True True") auto
    from chunk_index_contiguous [of standin_libs body Map.empty dto True True chunks] c n
    show ?thesis by simp
  qed
  have "map_sum id length
      (chunk_text standin_libs ''abc'' Map.empty (Some ''800-53_catalog'') True True) = Inr 1"
    by code_simp
  moreover have "map_sum id length
      (chunk_text standin_libs ''abcdefg'' Map.empty (Some ''default'') True True) = Inr 4"
    by code_simp
  moreover have "map_sum id length
      (chunk_text standin_libs ''abcdefg'' Map.empty (Some ''query_patterns'') True True) = Inr 3"
    by code_simp
  ultimately show ?thesis
    by (simp add: col index_column_def upt_rec)
qed

section \<open>The suppress-split path\<close>

lemma chunk_text_single:
  assumes dt: "resolve_document_type md dto = Inr dt"
    and n: "count_tokens L body = Inr n"
    and flag: "one_per_control (get_chunking_config dt)"
    and fits: "n \<le> chunk_size_tokens (get_chunking_config dt)"
  shows "chunk_text L body md dto s2b eq =
     (let m = md(''chunk_index'' \<mapsto> PInt 0, ''document_type'' \<mapsto> PStr dt,
                 ''token_count'' \<mapsto> PInt n, ''is_small_chunk'' \<mapsto> PBool False);
          pre = build_context_prefix md dt;
          c = \<lparr>c_text = prepend_context pre body,
               c_metadata = (if pre \<noteq> [] then m(''context_prefix'' \<mapsto> PStr pre) else m)\<rparr>
      in if eq then batch_enhance_chunks L [c] dt True else Inr [c])"
  using assms by (simp add: chunk_text_def Let_def)

text \<open>
  Claim C5. Let the document type (given, or detected when the argument is \<^verbatim>\<open>None\<close>)
  have the suppress-split flag \<^verbatim>\<open>one_per_control\<close>, let the token count \<open>n\<close> of the
  whole text be at most the type's target, and let \<^verbatim>\<open>source\<close> be a file name. Then
  \<^verbatim>\<open>chunk_text\<close> returns exactly one chunk, with \<^verbatim>\<open>chunk_index\<close> 0,
  \<^verbatim>\<open>is_small_chunk\<close> false and \<^verbatim>\<open>token_count\<close> \<open>n\<close>, and the splitter is not
  consulted: with any other splitter in its place the result is the same chunk.
\<close>

theorem suppress_split_single_chunk:
  assumes dt: "resolve_document_type md dto = Inr dt"
    and flag: "one_per_control (get_chunking_config dt)"
    and n: "count_tokens L body = Inr n"
    and fits: "n \<le> chunk_size_tokens (get_chunking_config dt)"
    and src: "source_is_str md"
  shows "\<exists>c. chunk_text L body md dto s2b eq = Inr [c]
           \<and> c_metadata c ''chunk_index'' = Some (PInt 0)
           \<and> c_metadata c ''is_small_chunk'' = Some (PBool False)
           \<and> c_metadata c ''token_count'' = Some (PInt n)
           \<and> chunk_text (L\<lparr>split_text := other_splitter\<rparr>) body md dto s2b eq = Inr [c]"
proof -
  let ?m = "md(''chunk_index'' \<mapsto> PInt 0, ''document_type'' \<mapsto> PStr dt,
                 ''token_count'' \<mapsto> PInt n, ''is_small_chunk'' \<mapsto> PBool False)"
  let ?pre = "build_context_prefix md dt"
  let ?c = "\<lparr>c_text = prepend_context ?pre body,
               c_metadata = (if ?pre \<noteq> [] then ?m(''context_prefix'' \<mapsto> PStr ?pre) else ?m)\<rparr>"
  let ?L' = "L\<lparr>split_text := other_splitter\<rparr>"
  have n': "count_tokens ?L' body = Inr n"
    using n by (simp add: count_tokens_def)
  have same: "enhance_chunk_metadata ?L' d dt b = enhance_chunk_metadata L d dt b" for d b
    by (simp add: enhance_chunk_metadata_def generate_hypothetical_questions_def
        generate_pattern_questions_def generate_generic_questions_def extract_key_terms_def)
  have r1: "chunk_text L body md dto s2b eq =
      (if eq then batch_enhance_chunks L [?c] dt True else Inr [?c])"
    using chunk_text_single [OF dt n flag fits] by (simp add: Let_def)
  have r2: "chunk_text ?L' body md dto s2b eq =
      (if eq then batch_enhance_chunks ?L' [?c] dt True else Inr [?c])"
    using chunk_text_single [OF dt n' flag fits] by (simp add: Let_def)
  have both: "chunk_text ?L' body md dto s2b eq = chunk_text L body md dto s2b eq"
    unfolding r1 r2 by (simp add: batch_enhance_chunks_def same split: sum.split)
  have "source_is_str (c_metadata ?c)"
    using src by (simp add: source_is_str_def source_str_def)
  then obtain c' where c': "enhance_chunk_metadata L ?c dt True = Inr c'"
    using enhance_chunk_metadata_returns by blast
  have keys: "''chunk_index'' \<notin> question_keys" "''is_small_chunk'' \<notin> question_keys"
      "''token_count'' \<notin> question_keys"
    by (simp_all add: question_keys_def)
  show ?thesis
  proof (cases eq)
    case True
    have "chunk_text L body md dto s2b eq = Inr [c']"
      unfolding r1 using True c' by (simp add: batch_enhance_chunks_def)
    moreover have "c_metadata c' ''chunk_index'' = Some (PInt 0)"
        "c_metadata c' ''is_small_chunk'' = Some (PBool False)"
        "c_metadata c' ''token_count'' = Some (PInt n)"
      using enhance_chunk_metadata_keeps(2) [OF c'] keys by simp_all
    ultimately show ?thesis using both by simp
  next
    case False
    have "chunk_text L body md dto s2b eq = Inr [?c]"
      unfolding r1 using False by simp
    then show ?thesis using both by simp
  qed
qed

text \<open>A three-character control text (300 stand-in tokens, target 384), also with a
  splitter that always raises.\<close>

theorem suppress_split_single_chunk_witness:
  "resolve_document_type catalog_meta None = Inr ''800-53_catalog''
   \<and> one_per_control (get_chunking_config ''800-53_catalog'')
   \<and> count_tokens standin_libs ''abc'' = Inr 300
   \<and> (300 :: int) \<le> chunk_size_tokens (get_chunking_config ''800-53_catalog'')
   \<and> source_is_str catalog_meta
   \<and> map_sum id (column ''chunk_index'') (chunk_text standin_libs ''abc'' catalog_meta None True True)
       = Inr [Some (PInt 0)]
   \<and> map_sum id (column ''is_small_chunk'') (chunk_text standin_libs ''abc'' catalog_meta None True True)
       = Inr [Some (PBool False)]
   \<and> map_sum id (column ''token_count'') (chunk_text standin_libs ''abc'' catalog_meta None True True)
       = Inr [Some (PInt 300)]
   \<and> chunk_text (standin_libs\<lparr>split_text := \<lambda>budget overlap body. Inl SplitterError\<rparr>)
         ''abc'' catalog_meta None True True
       = chunk_text standin_libs ''abc'' catalog_meta None True True"
proof -
  have dt: "resolve_document_type catalog_meta None = Inr ''800-53_catalog''"
    by code_simp
  have flag: "one_per_control (get_chunking_config ''800-53_catalog'')"
    by code_simp
  have n: "count_tokens standin_libs ''abc'' = Inr 300"
    by code_simp
  have fits: "(300 :: int) \<le> chunk_size_tokens (get_chunking_config ''800-53_catalog'')"
    by code_simp
  have src: "source_is_str catalog_meta"
    by (simp add: source_is_str_def source_str_def catalog_meta_def)
  from suppress_split_single_chunk [OF dt flag n fits src,
      of True True "\<lambda>budget overlap body. Inl SplitterError"]
  obtain c where "chunk_text standin_libs ''abc'' catalog_meta None True True = Inr [c]"
    "c_metadata c ''chunk_index'' = Some (PInt 0)"
    "c_metadata c ''is_small_chunk'' = Some (PBool False)"
    "c_metadata c ''token_count'' = Some (PInt 300)"
    "chunk_text (standin_libs\<lparr>split_text := \<lambda>budget overlap body. Inl SplitterError\<rparr>)
         ''abc'' catalog_meta None True True = Inr [c]"
    by blast
  then show ?thesis
    using dt flag n fits src by (simp add: column_def)
qed

section \<open>Token counts and emitted text\<close>








end
